theory Spec2Isabelle
  imports Main "HOL-Library.Sublist" "HOL-Library.AList"
begin

section \<open>The forwarding gateway of index.js\<close>

text \<open>
  The cloud function \<^verbatim>\<open>proxy\<close> of \<^verbatim>\<open>index.js\<close> authenticates a request, validates
  the target URL against a list of allowed host names, copies the \<^verbatim>\<open>x-target-*\<close>
  headers, calls the target with \<^verbatim>\<open>fetch\<close> and answers with an envelope. The model
  below follows the source statement by statement. What the source takes from its
  platform is a parameter of the model:
  \<^item> the URL parser behind \<^verbatim>\<open>new URL(url)\<close>: a function from the string to the
    \<^verbatim>\<open>hostname\<close> of the parsed URL, \<open>None\<close> where the constructor throws;
  \<^item> the network behind \<^verbatim>\<open>fetch\<close>: a function from the call to either the error
    thrown or the response object received.
  The handler's effects are its reply to the caller and its outbound calls; the model
  returns both.
\<close>

subsection \<open>Strings\<close>

text \<open>\<^verbatim>\<open>s.startsWith(p)\<close>.\<close>

fun startsWith :: "string \<Rightarrow> string \<Rightarrow> bool" where
  "startsWith s [] = True"
| "startsWith [] (p # ps) = False"
| "startsWith (c # cs) (p # ps) = (c = p \<and> startsWith cs ps)"

text \<open>\<^verbatim>\<open>s.includes(p)\<close>: \<open>p\<close> occurs in \<open>s\<close> at some position.\<close>

fun str_includes :: "string \<Rightarrow> string \<Rightarrow> bool" where
  "str_includes [] p = (p = [])"
| "str_includes (c # cs) p = (startsWith (c # cs) p \<or> str_includes cs p)"

text \<open>
  \<^verbatim>\<open>s.replace(p, r)\<close> with a string pattern: the first occurrence of \<open>p\<close> in \<open>s\<close>,
  searched from the left, is replaced by \<open>r\<close>; a string without an occurrence is
  returned as it is. (The source's replacement is the empty string, so the \<^verbatim>\<open>$\<close>
  patterns of a replacement string play no role.)
\<close>

fun replace :: "string \<Rightarrow> string \<Rightarrow> string \<Rightarrow> string" where
  "replace [] p r = (if p = [] then r else [])"
| "replace (c # cs) p r =
     (if startsWith (c # cs) p then r @ drop (length p) (c # cs)
      else c # replace cs p r)"

subsection \<open>Values and objects\<close>

text \<open>
  A value that is a string or \<^verbatim>\<open>undefined\<close> (\<^verbatim>\<open>null\<close> for \<^verbatim>\<open>API_KEY\<close>) is a
  \<open>string option\<close>. It is falsy when it is \<^verbatim>\<open>undefined\<close> or the empty string.
\<close>

definition falsy :: "string option \<Rightarrow> bool" where
  "falsy v = (v = None \<or> v = Some [])"

text \<open>\<^verbatim>\<open>a || b\<close>: the left operand unless it is falsy, then the right one.\<close>

definition js_or :: "string option \<Rightarrow> string option \<Rightarrow> string option" where
  "js_or a b = (if falsy a then b else a)"

text \<open>
  An object with string values (\<^verbatim>\<open>req.headers\<close>, \<^verbatim>\<open>req.query\<close>, \<^verbatim>\<open>req.body\<close>,
  the outbound \<^verbatim>\<open>headers\<close>) is the list of its own properties in the order
  \<^verbatim>\<open>Object.keys\<close> enumerates them; an object holds each key once.
\<close>

type_synonym js_object = "(string \<times> string) list"

text \<open>\<^verbatim>\<open>obj[k]\<close>, read.\<close>

definition get_property :: "js_object \<Rightarrow> string \<Rightarrow> string option" where
  "get_property obj k = map_of obj k"

text \<open>\<^verbatim>\<open>obj?.k\<close>: \<^verbatim>\<open>undefined\<close> when the object itself is missing.\<close>

definition opt_property :: "js_object option \<Rightarrow> string \<Rightarrow> string option" where
  "opt_property obj k = (case obj of None \<Rightarrow> None | Some ob \<Rightarrow> get_property ob k)"

text \<open>
  \<^verbatim>\<open>obj[k] = v\<close> on an object created by the literal \<^verbatim>\<open>{}\<close>, with a string \<open>v\<close>.
  The object inherits from \<^verbatim>\<open>Object.prototype\<close>, whose property \<^verbatim>\<open>__proto__\<close> is an
  accessor: an assignment to the key \<^verbatim>\<open>__proto__\<close> finds it on the prototype chain and
  runs its setter, which returns at once for a value that is neither an object nor
  \<^verbatim>\<open>null\<close>; no own property is created and \<^verbatim>\<open>Object.keys\<close> does not list the key.
  The other inherited properties are writable data properties, so every other key is
  created as an own property, or overwritten where it stands.
\<close>

definition set_property :: "js_object \<Rightarrow> string \<Rightarrow> string \<Rightarrow> js_object" where
  "set_property obj k v = (if k = ''__proto__'' then obj else AList.update k v obj)"

subsection \<open>Configuration and messages\<close>

text \<open>
  The module constants \<^verbatim>\<open>API_KEY\<close> (a string or \<^verbatim>\<open>null\<close>) and \<^verbatim>\<open>ALLOWED_DOMAINS\<close>
  (an array of strings), read once from the environment.
\<close>

record config =
  API_KEY :: "string option"
  ALLOWED_DOMAINS :: "string list"

definition INVALID_API_KEY :: string where
  "INVALID_API_KEY = ''Invalid API key''"

definition URL_REQUIRED :: string where
  "URL_REQUIRED = ''URL required''"

definition DOMAIN_NOT_ALLOWED :: string where
  "DOMAIN_NOT_ALLOWED = ''Domain not allowed''"

definition INVALID_URL_FORMAT :: string where
  "INVALID_URL_FORMAT = ''Invalid URL format''"

definition PROXY_REQUEST_FAILED :: string where
  "PROXY_REQUEST_FAILED = ''Proxy request failed''"

subsection \<open>validateUrl\<close>

text \<open>The result object: \<^verbatim>\<open>{valid: true}\<close> or \<^verbatim>\<open>{valid: false, error}\<close>.\<close>

datatype validation = Valid | Invalid string

text \<open>
  \<open>new_URL s\<close> is the \<^verbatim>\<open>hostname\<close> of \<^verbatim>\<open>new URL(s)\<close>, \<open>None\<close> where the constructor
  throws and the \<^verbatim>\<open>catch\<close> of line 37 takes over. After the test of line 29 the value
  is a string: the \<open>None\<close> branch of the outer \<open>case\<close> is never reached.
\<close>

type_synonym url_parser = "string \<Rightarrow> string option"

definition validateUrl :: "config \<Rightarrow> url_parser \<Rightarrow> string option \<Rightarrow> validation" where
  "validateUrl cfg new_URL url =
     (if falsy url then Invalid URL_REQUIRED
      else case url of
        None \<Rightarrow> Invalid URL_REQUIRED
      | Some u \<Rightarrow>
          (case new_URL u of
             None \<Rightarrow> Invalid INVALID_URL_FORMAT
           | Some hostname \<Rightarrow>
               if hostname \<notin> set (ALLOWED_DOMAINS cfg)
               then Invalid DOMAIN_NOT_ALLOWED
               else Valid))"

subsection \<open>parseResponseData\<close>

text \<open>A decoded JSON document; the numbers are left open.\<close>

datatype 'n json =
  JNull
| JBool bool
| JNumber 'n
| JString string
| JArray "'n json list"
| JObject "(string \<times> 'n json) list"

text \<open>An exception: the name of its class and its message.\<close>

datatype js_error = FetchError string | TypeError string | SyntaxError string

text \<open>
  The response object \<^verbatim>\<open>fetch\<close> resolves to, as the handler reads it: its status,
  \<^verbatim>\<open>headers.get('content-type')\<close> (\<^verbatim>\<open>null\<close> without the header), and what
  \<^verbatim>\<open>json()\<close> and \<^verbatim>\<open>text()\<close> give when awaited, a value or the error thrown.
\<close>

record 'n upstream =
  status :: nat
  content_type :: "string option"
  json_result :: "js_error + 'n json"
  text_result :: "js_error + string"

definition parseResponseData :: "'n upstream \<Rightarrow> js_error + 'n json" where
  "parseResponseData response =
     (case content_type response of
        None \<Rightarrow> map_sum id JString (text_result response)
      | Some contentType \<Rightarrow>
          if str_includes contentType ''application/json''
          then json_result response
          else map_sum id JString (text_result response))"

subsection \<open>proxy\<close>

record request =
  req_method :: string
  req_headers :: js_object
  req_query :: "js_object option"
  req_body :: "js_object option"

text \<open>The arguments of one call \<^verbatim>\<open>fetch(url, {method, headers, body})\<close>.\<close>

record fetch_call =
  call_url :: "string option"
  call_method :: string
  call_headers :: js_object
  call_body :: "string option"

type_synonym 'n network = "fetch_call \<Rightarrow> js_error + 'n upstream"

text \<open>
  The reply: \<^verbatim>\<open>res.status(c).json(b)\<close>, and \<^verbatim>\<open>res.json(b)\<close> with the status 200
  that a response has when none is set.
\<close>

datatype 'n reply_body = ErrorBody string | Envelope nat "'n json"

record 'n reply =
  http_status :: nat
  reply_json :: "'n reply_body"

definition res_status_json :: "nat \<Rightarrow> 'n reply_body \<Rightarrow> 'n reply" where
  "res_status_json c b = \<lparr>http_status = c, reply_json = b\<rparr>"

definition res_json :: "'n reply_body \<Rightarrow> 'n reply" where
  "res_json b = \<lparr>http_status = 200, reply_json = b\<rparr>"

text \<open>Lines 78 and 79: the target URL and the payload, from the query or the body.\<close>

definition target_url :: "request \<Rightarrow> string option" where
  "target_url req = js_or (opt_property (req_query req) ''url'') (opt_property (req_body req) ''url'')"

definition target_body :: "request \<Rightarrow> string option" where
  "target_body req = js_or (opt_property (req_query req) ''body'') (opt_property (req_body req) ''body'')"

text \<open>
  Lines 89 to 93: one round of the \<^verbatim>\<open>forEach\<close> over \<^verbatim>\<open>Object.keys(req.headers)\<close>,
  for a key and the value \<^verbatim>\<open>req.headers[key]\<close> stored under it, and the whole loop
  from the empty object.
\<close>

definition forward_header :: "string \<times> string \<Rightarrow> js_object \<Rightarrow> js_object" where
  "forward_header entry headers =
     (if startsWith (fst entry) ''x-target-''
      then set_property headers (replace (fst entry) ''x-target-'' []) (snd entry)
      else headers)"

definition forward_headers :: "js_object \<Rightarrow> js_object" where
  "forward_headers req_hs = fold forward_header req_hs []"

text \<open>
  Lines 96 to 100: the arguments of the call, \<^verbatim>\<open>url\<close> and \<^verbatim>\<open>body\<close> as lines 78
  and 79 left them, \<^verbatim>\<open>headers\<close> as the loop filled it.
\<close>

definition fetch_args :: "request \<Rightarrow> fetch_call" where
  "fetch_args req =
     \<lparr>call_url = target_url req, call_method = req_method req,
      call_headers = forward_headers (req_headers req), call_body = target_body req\<rparr>"

text \<open>
  The handler inside \<^verbatim>\<open>cors\<close>. Every \<^verbatim>\<open>Inl\<close> of the network or of the decoding is
  an exception inside the \<^verbatim>\<open>try\<close> block and reaches its \<^verbatim>\<open>catch\<close>. The second
  component lists the calls of \<^verbatim>\<open>fetch\<close> the handler made.
\<close>

definition proxy :: "config \<Rightarrow> url_parser \<Rightarrow> 'n network \<Rightarrow> request \<Rightarrow> 'n reply \<times> fetch_call list" where
  "proxy cfg new_URL fetch req =
     (if falsy (API_KEY cfg) \<or> get_property (req_headers req) ''x-api-key'' \<noteq> API_KEY cfg
      then (res_status_json 401 (ErrorBody INVALID_API_KEY), [])
      else
        (case validateUrl cfg new_URL (target_url req) of
           Invalid err \<Rightarrow> (res_status_json 400 (ErrorBody err), [])
         | Valid \<Rightarrow>
             (case fetch (fetch_args req) of
                Inl exn \<Rightarrow>
                  (res_status_json 500 (ErrorBody PROXY_REQUEST_FAILED), [fetch_args req])
              | Inr response \<Rightarrow>
                  (case parseResponseData response of
                     Inl exn \<Rightarrow>
                       (res_status_json 500 (ErrorBody PROXY_REQUEST_FAILED), [fetch_args req])
                   | Inr data \<Rightarrow>
                       (res_json (Envelope (status response) data), [fetch_args req])))))"

section \<open>Properties\<close>

lemma startsWith_iff: "startsWith s p \<longleftrightarrow> (\<exists>r. s = p @ r)"
  by (induction s p rule: startsWith.induct) auto

subsection \<open>The string operations\<close>

lemma startsWith_prefix: "startsWith s p = prefix p s"
  by (simp add: startsWith_iff prefix_def)

lemma replace_startsWith: "startsWith s p \<Longrightarrow> replace s p r = r @ drop (length p) s"
  by (cases s; cases p) auto

lemma replace_prefixed: "replace (p @ rest) p [] = rest"
  by (simp add: replace_startsWith startsWith_iff)

subsection \<open>The header loop\<close>

lemma forward_header_prefixed:
  "forward_header (''x-target-'' @ k, v) acc = set_property acc k v"
proof -
  have "startsWith (''x-target-'' @ k) ''x-target-''"
    unfolding startsWith_iff by blast
  moreover have "replace (''x-target-'' @ k) ''x-target-'' [] = k"
    by (rule replace_prefixed)
  ultimately show ?thesis
    unfolding forward_header_def by (simp only: fst_conv snd_conv if_True)
qed

lemma forward_header_other:
  "\<not> startsWith key ''x-target-'' \<Longrightarrow> forward_header (key, v) acc = acc"
  by (simp add: forward_header_def)

lemma map_of_set_property:
  "map_of (set_property acc r v) k =
     (if r = ''__proto__'' then map_of acc k else if k = r then Some v else map_of acc k)"
  by (simp add: set_property_def AList.update_conv')

lemma fold_forward_header_lookup:
  "distinct (map fst hs) \<Longrightarrow>
   map_of (fold forward_header hs acc) k =
     (if k \<noteq> ''__proto__'' \<and> map_of hs (''x-target-'' @ k) \<noteq> None
      then map_of hs (''x-target-'' @ k) else map_of acc k)"
proof (induction hs arbitrary: acc)
  case Nil
  then show ?case by simp
next
  case (Cons e hs)
  obtain key v where e: "e = (key, v)" by (cases e)
  from Cons.prems e have fresh: "map_of hs key = None" and dist: "distinct (map fst hs)"
    by (auto simp: map_of_eq_None_iff)
  note IH = Cons.IH [OF dist, of "forward_header e acc"]
  show ?case
  proof (cases "startsWith key ''x-target-''")
    case True
    then obtain r where r: "key = ''x-target-'' @ r" unfolding startsWith_iff by blast
    have step: "forward_header e acc = set_property acc r v"
      unfolding e r by (rule forward_header_prefixed)
    show ?thesis
    proof (cases "k = r")
      case True
      with fresh r have "map_of hs (''x-target-'' @ k) = None" by simp
      with IH step True e r show ?thesis
        by (simp add: map_of_set_property)
    next
      case False
      with r have "''x-target-'' @ k \<noteq> key" by simp
      with IH step False e show ?thesis
        by (simp add: map_of_set_property)
    qed
  next
    case False
    then have "''x-target-'' @ k \<noteq> key" unfolding startsWith_iff by blast
    with IH False e show ?thesis
      by (simp add: forward_header_other)
  qed
qed

lemma forward_headers_lookup:
  "distinct (map fst hs) \<Longrightarrow>
   get_property (forward_headers hs) k =
     (if k = ''__proto__'' then None else get_property hs (''x-target-'' @ k))"
proof -
  assume "distinct (map fst hs)"
  then have "map_of (fold forward_header hs []) k =
     (if k \<noteq> ''__proto__'' \<and> map_of hs (''x-target-'' @ k) \<noteq> None
      then map_of hs (''x-target-'' @ k) else map_of [] k)"
    by (rule fold_forward_header_lookup)
  then show ?thesis
    unfolding forward_headers_def get_property_def
    by (cases "map_of hs (''x-target-'' @ k)") (simp_all split: if_splits)
qed

lemma fold_forward_header_distinct:
  "distinct (map fst acc) \<Longrightarrow> distinct (map fst (fold forward_header hs acc))"
  by (induction hs arbitrary: acc)
     (auto simp: forward_header_def set_property_def AList.distinct_update)

lemma fold_forward_header_no_proto:
  "''__proto__'' \<notin> fst ` set acc \<Longrightarrow> ''__proto__'' \<notin> fst ` set (fold forward_header hs acc)"
proof (induction hs arbitrary: acc)
  case Nil
  then show ?case by simp
next
  case (Cons e hs)
  have "''__proto__'' \<notin> fst ` set (forward_header e acc)"
    using Cons.prems by (simp add: forward_header_def set_property_def AList.dom_update)
  then show ?case using Cons.IH by simp
qed


text \<open>
  The example of the documentation: of the three headers only the prefixed one is
  forwarded, under its stripped name.
\<close>

lemma forward_headers_example:
  "forward_headers [(''x-api-key'', ''k''), (''content-type'', ''application/json''),
      (''x-target-authtoken'', ''abc123'')] = [(''authtoken'', ''abc123'')]"
  by (simp add: forward_headers_def forward_header_def set_property_def)

subsection \<open>Substrings\<close>

lemma str_includes_iff: "str_includes s p \<longleftrightarrow> (\<exists>a b. s = a @ p @ b)"
proof (induction s)
  case Nil
  then show ?case by auto
next
  case (Cons c cs)
  show ?case
  proof
    assume "str_includes (c # cs) p"
    then consider "startsWith (c # cs) p" | "str_includes cs p" by auto
    then show "\<exists>a b. c # cs = a @ p @ b"
    proof cases
      case 1
      then obtain r where "c # cs = p @ r" by (auto simp: startsWith_iff)
      then have "c # cs = [] @ p @ r" by simp
      then show ?thesis by blast
    next
      case 2
      then obtain a b where "cs = a @ p @ b" using Cons.IH by blast
      then have "c # cs = (c # a) @ p @ b" by simp
      then show ?thesis by blast
    qed
  next
    assume "\<exists>a b. c # cs = a @ p @ b"
    then obtain a b where ab: "c # cs = a @ p @ b" by blast
    show "str_includes (c # cs) p"
    proof (cases a)
      case Nil
      with ab have "startsWith (c # cs) p" by (auto simp: startsWith_iff)
      then show ?thesis by simp
    next
      case (Cons x a')
      with ab have "cs = a' @ p @ b" by simp
      then have "str_includes cs p" using Cons.IH by blast
      then show ?thesis by simp
    qed
  qed
qed

lemma str_includes_sublist: "str_includes s p = sublist p s"
  by (simp add: str_includes_iff sublist_def)

subsection \<open>The stages of the handler\<close>

lemma validateUrl_cases:
  "validateUrl cfg new_URL url =
     (if url = None \<or> url = Some [] then Invalid URL_REQUIRED
      else if new_URL (the url) = None then Invalid INVALID_URL_FORMAT
      else if the (new_URL (the url)) \<notin> set (ALLOWED_DOMAINS cfg) then Invalid DOMAIN_NOT_ALLOWED
      else Valid)"
  by (auto simp: validateUrl_def falsy_def split: option.splits)

lemma validateUrl_Valid:
  "url = Some u \<Longrightarrow> u \<noteq> [] \<Longrightarrow> new_URL u = Some h \<Longrightarrow> h \<in> set (ALLOWED_DOMAINS cfg) \<Longrightarrow>
   validateUrl cfg new_URL url = Valid"
  by (simp add: validateUrl_def falsy_def)

lemma proxy_authenticated:
  assumes "API_KEY cfg = Some k" and "k \<noteq> []"
    and "get_property (req_headers req) ''x-api-key'' = Some k"
  shows "proxy cfg new_URL fetch req =
     (case validateUrl cfg new_URL (target_url req) of
        Invalid err \<Rightarrow> (res_status_json 400 (ErrorBody err), [])
      | Valid \<Rightarrow>
          (case fetch (fetch_args req) of
             Inl exn \<Rightarrow> (res_status_json 500 (ErrorBody PROXY_REQUEST_FAILED), [fetch_args req])
           | Inr response \<Rightarrow>
               (case parseResponseData response of
                  Inl exn \<Rightarrow> (res_status_json 500 (ErrorBody PROXY_REQUEST_FAILED), [fetch_args req])
                | Inr data \<Rightarrow> (res_json (Envelope (status response) data), [fetch_args req]))))"
  using assms by (simp add: proxy_def falsy_def)

lemma proxy_reply_cases:
  "fst (proxy cfg new_URL fetch req) = res_status_json 401 (ErrorBody INVALID_API_KEY)
   \<or> (\<exists>err. fst (proxy cfg new_URL fetch req) = res_status_json 400 (ErrorBody err))
   \<or> fst (proxy cfg new_URL fetch req) = res_status_json 500 (ErrorBody PROXY_REQUEST_FAILED)
   \<or> (\<exists>s d. fst (proxy cfg new_URL fetch req) = res_json (Envelope s d))"
  by (auto simp: proxy_def split: validation.splits sum.splits)

text \<open>
  The handler makes at most one outbound call, with the arguments of lines 96 to 100,
  and only to a URL that is not empty and whose host name is in \<^verbatim>\<open>ALLOWED_DOMAINS\<close>.
\<close>

lemma outbound_call_allowed:
  assumes "c \<in> set (snd (proxy cfg new_URL fetch req))"
  shows "c = fetch_args req \<and>
    (\<exists>u h. call_url c = Some u \<and> u \<noteq> [] \<and> new_URL u = Some h \<and> h \<in> set (ALLOWED_DOMAINS cfg))"
proof -
  from assms have valid: "validateUrl cfg new_URL (target_url req) = Valid" and c: "c = fetch_args req"
    by (auto simp: proxy_def split: if_splits validation.splits sum.splits)
  from valid obtain u h where "target_url req = Some u" "u \<noteq> []" "new_URL u = Some h"
    "h \<in> set (ALLOWED_DOMAINS cfg)"
    by (auto simp: validateUrl_def falsy_def split: if_splits option.splits)
  with c show ?thesis by (simp add: fetch_args_def)
qed

lemma at_most_one_outbound_call: "length (snd (proxy cfg new_URL fetch req)) \<le> 1"
  by (simp add: proxy_def split: validation.splits sum.splits)

subsection \<open>Claims\<close>

text \<open>
  C1, as the code has it. A request that passes the authentication and whose target
  URL is not empty and parses to a host name outside \<^verbatim>\<open>ALLOWED_DOMAINS\<close> is answered
  with the message "Domain not allowed" and without any outbound call, whatever the
  list holds (the empty list included). The status of that reply is 400, the one
  line 85 sets for every failed validation; the table of errors in the repository's
  documentation gives 403 for this message.
\<close>

theorem domain_not_allowed_reply:
  assumes "API_KEY cfg = Some k" and "k \<noteq> []"
    and "get_property (req_headers req) ''x-api-key'' = Some k"
    and "target_url req = Some u" and "u \<noteq> []"
    and "new_URL u = Some h" and "h \<notin> set (ALLOWED_DOMAINS cfg)"
  shows "proxy cfg new_URL fetch req =
    (\<lparr>http_status = 400, reply_json = ErrorBody ''Domain not allowed''\<rparr>, [])"
proof -
  have "validateUrl cfg new_URL (target_url req) = Invalid DOMAIN_NOT_ALLOWED"
    using assms(4-7) by (simp add: validateUrl_def falsy_def)
  then show ?thesis
    by (simp add: proxy_authenticated [OF assms(1-3)] res_status_json_def DOMAIN_NOT_ALLOWED_def)
qed

text \<open>The request of the documentation's example: the allowed host is api.example.com, the target evil.com.\<close>

theorem domain_not_allowed_reply_witness:
  "proxy \<lparr>API_KEY = Some ''k'', ALLOWED_DOMAINS = [''api.example.com'']\<rparr>
     (\<lambda>u. if u = ''https://evil.com/x'' then Some ''evil.com'' else None)
     (\<lambda>c. Inl (FetchError ''unreachable'') :: js_error + int upstream)
     \<lparr>req_method = ''GET'', req_headers = [(''x-api-key'', ''k'')],
      req_query = Some [(''url'', ''https://evil.com/x'')], req_body = None\<rparr>
   = (\<lparr>http_status = 400, reply_json = ErrorBody ''Domain not allowed''\<rparr>, [])"
  by (rule domain_not_allowed_reply [where k = "''k''" and u = "''https://evil.com/x''" and h = "''evil.com''"])
     (simp_all add: get_property_def target_url_def js_or_def falsy_def opt_property_def)

text \<open>
  C2, as the code has it. The loop of lines 89 to 93 forwards a header whose key starts
  with "x-target-" under the key without the prefix, with one exception: the header
  \<^verbatim>\<open>x-target-__proto__\<close> is lost, since the assignment \<^verbatim>\<open>headers['__proto__'] = v\<close>
  creates no property on an object literal. No outbound object ever has the key
  \<^verbatim>\<open>__proto__\<close>, and a request whose only prefixed header is that one leaves the outbound
  headers empty. For every other key the claim holds, by \<open>forward_headers_lookup\<close>:
  the outbound value under \<open>k\<close> is the inbound value under "x-target-" followed by
  \<open>k\<close>, so a header without the prefix (\<^verbatim>\<open>x-api-key\<close> among them) adds nothing.
\<close>

theorem forward_headers_proto_dropped:
  "''__proto__'' \<notin> fst ` set (forward_headers hs)
   \<and> forward_headers [(''x-api-key'', k), (''x-target-__proto__'', v)] = []"
proof
  show "''__proto__'' \<notin> fst ` set (forward_headers hs)"
    unfolding forward_headers_def by (rule fold_forward_header_no_proto) simp
  show "forward_headers [(''x-api-key'', k), (''x-target-__proto__'', v)] = []"
    by (simp add: forward_headers_def forward_header_def set_property_def)
qed

text \<open>
  C3. When no secret is configured, or the request has no \<^verbatim>\<open>x-api-key\<close> header, or
  the header differs from the configured secret, the reply is 401 with the message
  "Invalid API key" and no outbound call is made; no later stage contributes to the
  result. A request that gets any other result carried a header equal, as a string, to
  a configured secret.
\<close>

theorem authentication_fail_closed:
  "(API_KEY cfg = None
      \<or> get_property (req_headers req) ''x-api-key'' = None
      \<or> get_property (req_headers req) ''x-api-key'' \<noteq> API_KEY cfg
    \<longrightarrow> proxy cfg new_URL fetch req =
          (\<lparr>http_status = 401, reply_json = ErrorBody ''Invalid API key''\<rparr>, []))
   \<and> (proxy cfg new_URL fetch req \<noteq>
          (\<lparr>http_status = 401, reply_json = ErrorBody ''Invalid API key''\<rparr>, [])
    \<longrightarrow> API_KEY cfg \<noteq> None
        \<and> get_property (req_headers req) ''x-api-key'' = API_KEY cfg)"
proof -
  have rejected: "proxy cfg new_URL fetch req =
      (\<lparr>http_status = 401, reply_json = ErrorBody ''Invalid API key''\<rparr>, [])"
    if "falsy (API_KEY cfg) \<or> get_property (req_headers req) ''x-api-key'' \<noteq> API_KEY cfg"
    using that by (simp add: proxy_def res_status_json_def INVALID_API_KEY_def)
  show ?thesis
  proof (intro conjI impI)
    assume "API_KEY cfg = None
      \<or> get_property (req_headers req) ''x-api-key'' = None
      \<or> get_property (req_headers req) ''x-api-key'' \<noteq> API_KEY cfg"
    then have "falsy (API_KEY cfg) \<or> get_property (req_headers req) ''x-api-key'' \<noteq> API_KEY cfg"
      by (auto simp: falsy_def)
    then show "proxy cfg new_URL fetch req =
      (\<lparr>http_status = 401, reply_json = ErrorBody ''Invalid API key''\<rparr>, [])"
      by (rule rejected)
  next
    assume proceeds: "proxy cfg new_URL fetch req \<noteq>
      (\<lparr>http_status = 401, reply_json = ErrorBody ''Invalid API key''\<rparr>, [])"
    show "API_KEY cfg \<noteq> None"
    proof
      assume "API_KEY cfg = None"
      then have "falsy (API_KEY cfg)" by (simp add: falsy_def)
      with rejected proceeds show False by blast
    qed
  next
    assume proceeds: "proxy cfg new_URL fetch req \<noteq>
      (\<lparr>http_status = 401, reply_json = ErrorBody ''Invalid API key''\<rparr>, [])"
    show "get_property (req_headers req) ''x-api-key'' = API_KEY cfg"
    proof (rule ccontr)
      assume "get_property (req_headers req) ''x-api-key'' \<noteq> API_KEY cfg"
      with rejected proceeds show False by blast
    qed
  qed
qed

text \<open>
  A header that differs from the secret only in the case of a letter, and a request to
  a server without a secret, are rejected; the request with the exact secret is not.
\<close>

theorem authentication_fail_closed_witness:
  "proxy \<lparr>API_KEY = Some ''secret'', ALLOWED_DOMAINS = [''api.example.com'']\<rparr>
     (\<lambda>u. Some ''api.example.com'')
     (\<lambda>c. Inr \<lparr>status = 200, content_type = None, json_result = Inr JNull,
                text_result = Inr ''ok''\<rparr> :: js_error + int upstream)
     \<lparr>req_method = ''GET'', req_headers = [(''x-api-key'', ''Secret'')],
      req_query = Some [(''url'', ''https://api.example.com/x'')], req_body = None\<rparr>
   = (\<lparr>http_status = 401, reply_json = ErrorBody ''Invalid API key''\<rparr>, [])
   \<and> proxy \<lparr>API_KEY = None, ALLOWED_DOMAINS = [''api.example.com'']\<rparr>
     (\<lambda>u. Some ''api.example.com'')
     (\<lambda>c. Inr \<lparr>status = 200, content_type = None, json_result = Inr JNull,
                text_result = Inr ''ok''\<rparr> :: js_error + int upstream)
     \<lparr>req_method = ''GET'', req_headers = [],
      req_query = Some [(''url'', ''https://api.example.com/x'')], req_body = None\<rparr>
   = (\<lparr>http_status = 401, reply_json = ErrorBody ''Invalid API key''\<rparr>, [])
   \<and> proxy \<lparr>API_KEY = Some ''secret'', ALLOWED_DOMAINS = [''api.example.com'']\<rparr>
     (\<lambda>u. Some ''api.example.com'')
     (\<lambda>c. Inr \<lparr>status = 200, content_type = None, json_result = Inr JNull,
                text_result = Inr ''ok''\<rparr> :: js_error + int upstream)
     \<lparr>req_method = ''GET'', req_headers = [(''x-api-key'', ''secret'')],
      req_query = Some [(''url'', ''https://api.example.com/x'')], req_body = None\<rparr>
   \<noteq> (\<lparr>http_status = 401, reply_json = ErrorBody ''Invalid API key''\<rparr>, [])
   \<and> get_property (req_headers \<lparr>req_method = ''GET'', req_headers = [(''x-api-key'', ''secret'')],
      req_query = Some [(''url'', ''https://api.example.com/x'')], req_body = None\<rparr>) ''x-api-key''
     = API_KEY \<lparr>API_KEY = Some ''secret'', ALLOWED_DOMAINS = [''api.example.com'']\<rparr>"
proof -
  let ?cfg = "\<lparr>API_KEY = Some ''secret'', ALLOWED_DOMAINS = [''api.example.com'']\<rparr>"
  let ?open = "\<lparr>API_KEY = None, ALLOWED_DOMAINS = [''api.example.com'']\<rparr>"
  let ?parse = "\<lambda>u::string. Some ''api.example.com''"
  let ?net = "\<lambda>c. Inr \<lparr>status = 200, content_type = None, json_result = Inr JNull,
                text_result = Inr ''ok''\<rparr> :: js_error + int upstream"
  let ?ok = "\<lparr>req_method = ''GET'', req_headers = [(''x-api-key'', ''secret'')],
      req_query = Some [(''url'', ''https://api.example.com/x'')], req_body = None\<rparr>"
  let ?wrong = "\<lparr>req_method = ''GET'', req_headers = [(''x-api-key'', ''Secret'')],
      req_query = Some [(''url'', ''https://api.example.com/x'')], req_body = None\<rparr>"
  let ?none = "\<lparr>req_method = ''GET'', req_headers = [],
      req_query = Some [(''url'', ''https://api.example.com/x'')], req_body = None\<rparr>"
  let ?rejected = "(\<lparr>http_status = 401, reply_json = ErrorBody ''Invalid API key''\<rparr>, [])
    :: int reply \<times> fetch_call list"
  have proceeds: "proxy ?cfg ?parse ?net ?ok \<noteq> ?rejected"
    by (simp add: proxy_def falsy_def get_property_def validateUrl_def target_url_def js_or_def
        opt_property_def parseResponseData_def res_json_def)
  with authentication_fail_closed [of ?cfg ?ok ?parse ?net]
  have equal: "get_property (req_headers ?ok) ''x-api-key'' = API_KEY ?cfg"
    by blast
  have wrong: "proxy ?cfg ?parse ?net ?wrong = ?rejected"
    using authentication_fail_closed [of ?cfg ?wrong ?parse ?net]
    by (simp add: get_property_def)
  have none: "proxy ?open ?parse ?net ?none = ?rejected"
    using authentication_fail_closed [of ?open ?none ?parse ?net]
    by simp
  from wrong none proceeds equal show ?thesis by blast
qed

text \<open>
  C4, as amended. When the query parameter \<^verbatim>\<open>url\<close> is present and not the empty
  string, it is the target that is validated and passed to \<^verbatim>\<open>fetch\<close>, whatever the
  body holds; likewise for the payload \<^verbatim>\<open>body\<close>.
\<close>

theorem query_precedence:
  "(opt_property (req_query req) ''url'' = Some q \<and> q \<noteq> []
      \<longrightarrow> target_url req = Some q \<and> call_url (fetch_args req) = Some q)
   \<and> (opt_property (req_query req) ''body'' = Some p \<and> p \<noteq> []
      \<longrightarrow> target_body req = Some p \<and> call_body (fetch_args req) = Some p)"
  by (simp add: fetch_args_def target_url_def target_body_def js_or_def falsy_def)

theorem query_precedence_witness:
  "call_url (fetch_args \<lparr>req_method = ''POST'', req_headers = [(''x-api-key'', ''k'')],
       req_query = Some [(''url'', ''https://api.example.com/q''), (''body'', ''from query'')],
       req_body = Some [(''url'', ''https://api.example.com/b''), (''body'', ''from body'')]\<rparr>)
     = Some ''https://api.example.com/q''
   \<and> call_body (fetch_args \<lparr>req_method = ''POST'', req_headers = [(''x-api-key'', ''k'')],
       req_query = Some [(''url'', ''https://api.example.com/q''), (''body'', ''from query'')],
       req_body = Some [(''url'', ''https://api.example.com/b''), (''body'', ''from body'')]\<rparr>)
     = Some ''from query''"
  using query_precedence [of
      "\<lparr>req_method = ''POST'', req_headers = [(''x-api-key'', ''k'')],
       req_query = Some [(''url'', ''https://api.example.com/q''), (''body'', ''from query'')],
       req_body = Some [(''url'', ''https://api.example.com/b''), (''body'', ''from body'')]\<rparr>"
      "''https://api.example.com/q''" "''from query''"]
  by (simp add: opt_property_def get_property_def)

text \<open>
  C4 as stated fails: with both sources present and the query parameters empty
  strings, the body's \<^verbatim>\<open>url\<close> and \<^verbatim>\<open>body\<close> are the ones forwarded.
\<close>

theorem query_precedence_counterexample:
  "opt_property (req_query \<lparr>req_method = ''POST'', req_headers = [(''x-api-key'', ''k'')],
       req_query = Some [(''url'', []), (''body'', [])],
       req_body = Some [(''url'', ''https://api.example.com/x''), (''body'', ''payload'')]\<rparr>) ''url''
     = Some []
   \<and> target_url \<lparr>req_method = ''POST'', req_headers = [(''x-api-key'', ''k'')],
       req_query = Some [(''url'', []), (''body'', [])],
       req_body = Some [(''url'', ''https://api.example.com/x''), (''body'', ''payload'')]\<rparr>
     = Some ''https://api.example.com/x''
   \<and> fetch_args \<lparr>req_method = ''POST'', req_headers = [(''x-api-key'', ''k'')],
       req_query = Some [(''url'', []), (''body'', [])],
       req_body = Some [(''url'', ''https://api.example.com/x''), (''body'', ''payload'')]\<rparr>
     = \<lparr>call_url = Some ''https://api.example.com/x'', call_method = ''POST'',
        call_headers = [], call_body = Some ''payload''\<rparr>"
  by (simp add: fetch_args_def target_url_def target_body_def js_or_def falsy_def
      opt_property_def get_property_def forward_headers_def forward_header_def)

text \<open>
  C5. Once a request has passed the authentication and the validation, every failure
  of the forward is answered with status 500 and the message "Proxy request failed",
  the same reply whatever the exception \<open>e\<close> is: \<^verbatim>\<open>fetch\<close> throwing, \<^verbatim>\<open>json()\<close> throwing
  on a response labelled as JSON, or \<^verbatim>\<open>text()\<close> throwing on any other response. These
  are all the exceptions of the handler's \<^verbatim>\<open>try\<close> block.
\<close>

theorem forward_failure_uniform:
  assumes "API_KEY cfg = Some k" and "k \<noteq> []"
    and "get_property (req_headers req) ''x-api-key'' = Some k"
    and "target_url req = Some u" and "u \<noteq> []"
    and "new_URL u = Some h" and "h \<in> set (ALLOWED_DOMAINS cfg)"
    and "fetch (fetch_args req) = Inl e
       \<or> (\<exists>r ct. fetch (fetch_args req) = Inr r \<and> content_type r = Some ct
              \<and> str_includes ct ''application/json'' \<and> json_result r = Inl e)
       \<or> (\<exists>r. fetch (fetch_args req) = Inr r
              \<and> (content_type r = None
                   \<or> (\<exists>ct. content_type r = Some ct \<and> \<not> str_includes ct ''application/json''))
              \<and> text_result r = Inl e)"
  shows "proxy cfg new_URL fetch req =
    (\<lparr>http_status = 500, reply_json = ErrorBody ''Proxy request failed''\<rparr>, [fetch_args req])"
proof -
  have valid: "validateUrl cfg new_URL (target_url req) = Valid"
    using assms(4-7) by (rule validateUrl_Valid)
  from assms(8) consider
      (network) "fetch (fetch_args req) = Inl e"
    | (decode) r where "fetch (fetch_args req) = Inr r" and "parseResponseData r = Inl e"
    by (auto simp: parseResponseData_def)
  then show ?thesis
    by cases
      (simp_all add: proxy_authenticated [OF assms(1-3)] valid res_status_json_def
        PROXY_REQUEST_FAILED_def)
qed

text \<open>
  A body that is not JSON under a JSON label, and a failed name lookup, give the same
  reply.
\<close>

theorem forward_failure_uniform_witness:
  "proxy \<lparr>API_KEY = Some ''k'', ALLOWED_DOMAINS = [''api.example.com'']\<rparr>
     (\<lambda>u. if u = ''https://api.example.com/x'' then Some ''api.example.com'' else None)
     (\<lambda>c. Inr \<lparr>status = 200, content_type = Some ''application/json'',
                json_result = Inl (SyntaxError ''Unexpected token < in JSON at position 0''),
                text_result = Inr ''<html>''\<rparr> :: js_error + int upstream)
     \<lparr>req_method = ''GET'', req_headers = [(''x-api-key'', ''k'')],
      req_query = Some [(''url'', ''https://api.example.com/x'')], req_body = None\<rparr>
   = (\<lparr>http_status = 500, reply_json = ErrorBody ''Proxy request failed''\<rparr>,
      [\<lparr>call_url = Some ''https://api.example.com/x'', call_method = ''GET'',
        call_headers = [], call_body = None\<rparr>])
   \<and> proxy \<lparr>API_KEY = Some ''k'', ALLOWED_DOMAINS = [''api.example.com'']\<rparr>
     (\<lambda>u. if u = ''https://api.example.com/x'' then Some ''api.example.com'' else None)
     (\<lambda>c. Inl (FetchError ''getaddrinfo ENOTFOUND api.example.com'') :: js_error + int upstream)
     \<lparr>req_method = ''GET'', req_headers = [(''x-api-key'', ''k'')],
      req_query = Some [(''url'', ''https://api.example.com/x'')], req_body = None\<rparr>
   = (\<lparr>http_status = 500, reply_json = ErrorBody ''Proxy request failed''\<rparr>,
      [\<lparr>call_url = Some ''https://api.example.com/x'', call_method = ''GET'',
        call_headers = [], call_body = None\<rparr>])"
proof -
  let ?cfg = "\<lparr>API_KEY = Some ''k'', ALLOWED_DOMAINS = [''api.example.com'']\<rparr>"
  let ?parse = "\<lambda>u. if u = ''https://api.example.com/x'' then Some ''api.example.com'' else None"
  let ?req = "\<lparr>req_method = ''GET'', req_headers = [(''x-api-key'', ''k'')],
      req_query = Some [(''url'', ''https://api.example.com/x'')], req_body = None\<rparr>"
  let ?r = "\<lparr>status = 200, content_type = Some ''application/json'',
                json_result = Inl (SyntaxError ''Unexpected token < in JSON at position 0''),
                text_result = Inr ''<html>''\<rparr> :: int upstream"
  have args: "fetch_args ?req = \<lparr>call_url = Some ''https://api.example.com/x'', call_method = ''GET'',
        call_headers = [], call_body = None\<rparr>"
    by (simp add: fetch_args_def target_url_def target_body_def js_or_def falsy_def
        opt_property_def get_property_def forward_headers_def forward_header_def)
  have url: "target_url ?req = Some ''https://api.example.com/x''"
    by (simp add: target_url_def js_or_def falsy_def opt_property_def get_property_def)
  have "proxy ?cfg ?parse (\<lambda>c. Inr ?r) ?req =
      (\<lparr>http_status = 500, reply_json = ErrorBody ''Proxy request failed''\<rparr>, [fetch_args ?req])"
    by (rule forward_failure_uniform [where k = "''k''" and u = "''https://api.example.com/x''"
          and h = "''api.example.com''"
          and e = "SyntaxError ''Unexpected token < in JSON at position 0''"])
       (simp_all add: url get_property_def)
  moreover have "proxy ?cfg ?parse
      (\<lambda>c. Inl (FetchError ''getaddrinfo ENOTFOUND api.example.com'') :: js_error + int upstream) ?req =
      (\<lparr>http_status = 500, reply_json = ErrorBody ''Proxy request failed''\<rparr>, [fetch_args ?req])"
    by (rule forward_failure_uniform [where k = "''k''" and u = "''https://api.example.com/x''"
          and h = "''api.example.com''"
          and e = "FetchError ''getaddrinfo ENOTFOUND api.example.com''"])
       (simp_all add: url get_property_def)
  ultimately show ?thesis unfolding args by blast
qed

text \<open>
  C6. For an authenticated request, the reply is 400 "URL required" exactly when the
  target URL is absent or empty, and 400 "Invalid URL format" exactly when it is a
  non-empty string that \<^verbatim>\<open>new URL\<close> rejects. Neither condition mentions the allowed
  hosts: both checks come before the membership test.
\<close>

theorem target_validation_order:
  assumes "API_KEY cfg = Some k" and "k \<noteq> []"
    and "get_property (req_headers req) ''x-api-key'' = Some k"
  shows "(proxy cfg new_URL fetch req =
            (\<lparr>http_status = 400, reply_json = ErrorBody ''URL required''\<rparr>, [])
          \<longleftrightarrow> target_url req = None \<or> target_url req = Some [])
       \<and> (proxy cfg new_URL fetch req =
            (\<lparr>http_status = 400, reply_json = ErrorBody ''Invalid URL format''\<rparr>, [])
          \<longleftrightarrow> (\<exists>u. target_url req = Some u \<and> u \<noteq> [] \<and> new_URL u = None))"
proof -
  note run = proxy_authenticated [OF assms, of new_URL fetch]
  consider (missing) "target_url req = None \<or> target_url req = Some []"
    | (malformed) u where "target_url req = Some u" "u \<noteq> []" "new_URL u = None"
    | (foreign) u h where "target_url req = Some u" "u \<noteq> []" "new_URL u = Some h"
        "h \<notin> set (ALLOWED_DOMAINS cfg)"
    | (allowed) u h where "target_url req = Some u" "u \<noteq> []" "new_URL u = Some h"
        "h \<in> set (ALLOWED_DOMAINS cfg)"
    by (cases "target_url req") auto
  then show ?thesis
  proof cases
    case missing
    then have "validateUrl cfg new_URL (target_url req) = Invalid URL_REQUIRED"
      by (auto simp: validateUrl_def falsy_def)
    with missing show ?thesis
      by (auto simp: run res_status_json_def URL_REQUIRED_def)
  next
    case malformed
    then have "validateUrl cfg new_URL (target_url req) = Invalid INVALID_URL_FORMAT"
      by (simp add: validateUrl_def falsy_def)
    with malformed show ?thesis
      by (simp add: run res_status_json_def INVALID_URL_FORMAT_def)
  next
    case foreign
    then have "validateUrl cfg new_URL (target_url req) = Invalid DOMAIN_NOT_ALLOWED"
      by (simp add: validateUrl_def falsy_def)
    with foreign show ?thesis
      by (simp add: run res_status_json_def DOMAIN_NOT_ALLOWED_def)
  next
    case allowed
    then have "validateUrl cfg new_URL (target_url req) = Valid"
      by (simp add: validateUrl_def falsy_def)
    with allowed show ?thesis
      by (simp add: run res_status_json_def res_json_def split: sum.splits)
  qed
qed

text \<open>
  With an empty list of allowed hosts, a request without a URL and a request with an
  unparseable one still get their own messages.
\<close>

theorem target_validation_order_witness:
  "proxy \<lparr>API_KEY = Some ''k'', ALLOWED_DOMAINS = []\<rparr>
     (\<lambda>u. if u = ''not a url'' then None else Some ''evil.com'')
     (\<lambda>c. Inl (FetchError ''unreachable'') :: js_error + int upstream)
     \<lparr>req_method = ''GET'', req_headers = [(''x-api-key'', ''k'')],
      req_query = None, req_body = None\<rparr>
   = (\<lparr>http_status = 400, reply_json = ErrorBody ''URL required''\<rparr>, [])
   \<and> proxy \<lparr>API_KEY = Some ''k'', ALLOWED_DOMAINS = []\<rparr>
     (\<lambda>u. if u = ''not a url'' then None else Some ''evil.com'')
     (\<lambda>c. Inl (FetchError ''unreachable'') :: js_error + int upstream)
     \<lparr>req_method = ''GET'', req_headers = [(''x-api-key'', ''k'')],
      req_query = None, req_body = Some [(''url'', ''not a url'')]\<rparr>
   = (\<lparr>http_status = 400, reply_json = ErrorBody ''Invalid URL format''\<rparr>, [])"
proof -
  let ?cfg = "\<lparr>API_KEY = Some ''k'', ALLOWED_DOMAINS = []\<rparr>"
  let ?parse = "\<lambda>u. if u = ''not a url'' then None else Some ''evil.com''"
  let ?net = "\<lambda>c. Inl (FetchError ''unreachable'') :: js_error + int upstream"
  let ?absent = "\<lparr>req_method = ''GET'', req_headers = [(''x-api-key'', ''k'')],
      req_query = None, req_body = None\<rparr>"
  let ?junk = "\<lparr>req_method = ''GET'', req_headers = [(''x-api-key'', ''k'')],
      req_query = None, req_body = Some [(''url'', ''not a url'')]\<rparr>"
  have "target_url ?absent = None"
    by (simp add: target_url_def js_or_def falsy_def opt_property_def)
  then have "proxy ?cfg ?parse ?net ?absent
      = (\<lparr>http_status = 400, reply_json = ErrorBody ''URL required''\<rparr>, [])"
    using target_validation_order [of ?cfg "''k''" ?absent ?parse ?net]
    by (simp add: get_property_def)
  moreover have "target_url ?junk = Some ''not a url''"
    by (simp add: target_url_def js_or_def falsy_def opt_property_def get_property_def)
  then have "proxy ?cfg ?parse ?net ?junk
      = (\<lparr>http_status = 400, reply_json = ErrorBody ''Invalid URL format''\<rparr>, [])"
    using target_validation_order [of ?cfg "''k''" ?junk ?parse ?net]
    by (simp add: get_property_def)
  ultimately show ?thesis by blast
qed

text \<open>
  C7. The body of an upstream response is decoded with \<^verbatim>\<open>json()\<close> if and only if
  the \<^verbatim>\<open>content-type\<close> header is present and "application/json" occurs somewhere in
  it; otherwise the result is the text of the body, a string.
\<close>

theorem json_decoding_by_content_type:
  "parseResponseData response =
     (if \<exists>contentType pre post. content_type response = Some contentType
           \<and> contentType = pre @ ''application/json'' @ post
      then json_result response
      else map_sum id JString (text_result response))"
  by (cases "content_type response") (simp_all add: parseResponseData_def str_includes_iff)

lemma json_with_charset:
  "parseResponseData \<lparr>status = s, content_type = Some ''application/json; charset=utf-8'',
      json_result = j, text_result = t\<rparr> = j"
  by (simp add: parseResponseData_def)

text \<open>
  C8. When the forward succeeds, the reply has status 200 and the envelope holds the
  upstream status unchanged, together with the decoded body.
\<close>

theorem successful_forward_envelope:
  assumes "API_KEY cfg = Some k" and "k \<noteq> []"
    and "get_property (req_headers req) ''x-api-key'' = Some k"
    and "target_url req = Some u" and "u \<noteq> []"
    and "new_URL u = Some h" and "h \<in> set (ALLOWED_DOMAINS cfg)"
    and "fetch (fetch_args req) = Inr r" and "parseResponseData r = Inr d"
  shows "proxy cfg new_URL fetch req =
    (\<lparr>http_status = 200, reply_json = Envelope (status r) d\<rparr>, [fetch_args req])"
proof -
  have "validateUrl cfg new_URL (target_url req) = Valid"
    using assms(4-7) by (rule validateUrl_Valid)
  with assms(8,9) show ?thesis
    by (simp add: proxy_authenticated [OF assms(1-3)] res_json_def)
qed

text \<open>
  An upstream 404 with a plain text body: the caller gets 200 and reads 404 in the
  envelope.
\<close>

theorem successful_forward_envelope_witness:
  "proxy \<lparr>API_KEY = Some ''k'', ALLOWED_DOMAINS = [''httpbin.org'']\<rparr>
     (\<lambda>u. if u = ''https://httpbin.org/status/404'' then Some ''httpbin.org'' else None)
     (\<lambda>c. Inr \<lparr>status = 404, content_type = Some ''text/plain'',
                json_result = Inl (SyntaxError ''Unexpected token N in JSON at position 0''),
                text_result = Inr ''Not Found''\<rparr> :: js_error + int upstream)
     \<lparr>req_method = ''GET'', req_headers = [(''x-api-key'', ''k'')],
      req_query = Some [(''url'', ''https://httpbin.org/status/404'')], req_body = None\<rparr>
   = (\<lparr>http_status = 200, reply_json = Envelope 404 (JString ''Not Found'')\<rparr>,
      [\<lparr>call_url = Some ''https://httpbin.org/status/404'', call_method = ''GET'',
        call_headers = [], call_body = None\<rparr>])"
proof -
  let ?req = "\<lparr>req_method = ''GET'', req_headers = [(''x-api-key'', ''k'')],
      req_query = Some [(''url'', ''https://httpbin.org/status/404'')], req_body = None\<rparr>"
  let ?r = "\<lparr>status = 404, content_type = Some ''text/plain'',
                json_result = Inl (SyntaxError ''Unexpected token N in JSON at position 0''),
                text_result = Inr ''Not Found''\<rparr> :: int upstream"
  have args: "fetch_args ?req = \<lparr>call_url = Some ''https://httpbin.org/status/404'', call_method = ''GET'',
        call_headers = [], call_body = None\<rparr>"
    by (simp add: fetch_args_def target_url_def target_body_def js_or_def falsy_def
        opt_property_def get_property_def forward_headers_def forward_header_def)
  have url: "target_url ?req = Some ''https://httpbin.org/status/404''"
    by (simp add: target_url_def js_or_def falsy_def opt_property_def get_property_def)
  have data: "parseResponseData ?r = Inr (JString ''Not Found'')"
    by (simp add: parseResponseData_def)
  have "proxy \<lparr>API_KEY = Some ''k'', ALLOWED_DOMAINS = [''httpbin.org'']\<rparr>
     (\<lambda>u. if u = ''https://httpbin.org/status/404'' then Some ''httpbin.org'' else None)
     (\<lambda>c. Inr ?r) ?req
     = (\<lparr>http_status = 200, reply_json = Envelope (status ?r) (JString ''Not Found'')\<rparr>,
        [fetch_args ?req])"
    by (rule successful_forward_envelope [where k = "''k''" and u = "''https://httpbin.org/status/404''"
          and h = "''httpbin.org''"])
       (simp_all add: url data get_property_def)
  then show ?thesis unfolding args by simp
qed

text \<open>
  C9. A query parameter \<^verbatim>\<open>url\<close> that is the empty string counts as missing: the
  body's \<^verbatim>\<open>url\<close> is the target that is validated and passed to \<^verbatim>\<open>fetch\<close>. The
  same holds for the payload \<^verbatim>\<open>body\<close>.
\<close>

theorem falsy_query_falls_back:
  "(opt_property (req_query req) ''url'' = Some [] \<and> opt_property (req_body req) ''url'' = Some u
      \<longrightarrow> target_url req = Some u \<and> call_url (fetch_args req) = Some u)
   \<and> (opt_property (req_query req) ''body'' = Some [] \<and> opt_property (req_body req) ''body'' = Some p
      \<longrightarrow> target_body req = Some p \<and> call_body (fetch_args req) = Some p)"
  by (simp add: fetch_args_def target_url_def target_body_def js_or_def falsy_def)

theorem falsy_query_falls_back_witness:
  "call_url (fetch_args \<lparr>req_method = ''POST'', req_headers = [(''x-api-key'', ''k'')],
       req_query = Some [(''url'', []), (''body'', [])],
       req_body = Some [(''url'', ''https://api.example.com/b''), (''body'', ''from body'')]\<rparr>)
     = Some ''https://api.example.com/b''
   \<and> call_body (fetch_args \<lparr>req_method = ''POST'', req_headers = [(''x-api-key'', ''k'')],
       req_query = Some [(''url'', []), (''body'', [])],
       req_body = Some [(''url'', ''https://api.example.com/b''), (''body'', ''from body'')]\<rparr>)
     = Some ''from body''"
  using falsy_query_falls_back [of
      "\<lparr>req_method = ''POST'', req_headers = [(''x-api-key'', ''k'')],
       req_query = Some [(''url'', []), (''body'', [])],
       req_body = Some [(''url'', ''https://api.example.com/b''), (''body'', ''from body'')]\<rparr>"
      "''https://api.example.com/b''" "''from body''"]
  by (simp add: opt_property_def get_property_def)

text \<open>
  C10. Only the first occurrence of "x-target-" is removed: a key that carries the
  prefix twice keeps the second one, and \<^verbatim>\<open>x-target-x-target-a\<close> is forwarded as
  \<^verbatim>\<open>x-target-a\<close>.
\<close>

theorem first_occurrence_only:
  "replace (''x-target-'' @ ''x-target-'' @ rest) ''x-target-'' [] = ''x-target-'' @ rest
   \<and> forward_headers [(''x-target-x-target-a'', v)] = [(''x-target-a'', v)]"
proof
  show "replace (''x-target-'' @ ''x-target-'' @ rest) ''x-target-'' [] = ''x-target-'' @ rest"
    by (rule replace_prefixed)
  show "forward_headers [(''x-target-x-target-a'', v)] = [(''x-target-a'', v)]"
    by (simp add: forward_headers_def forward_header_def set_property_def)
qed

end
